theory Spec2Isabelle
  imports Main "HOL-Library.Word"
begin

unbundle bit_operations_syntax

section \<open>The Daytona computer adapter\<close>

text \<open>
  A shallow embedding of \<^verbatim>\<open>src/computers/daytona/daytona.py\<close>. The class
  \<^verbatim>\<open>DaytonaComputer\<close> is a thin adapter: every method is a fixed sequence of calls to
  the remote sandbox provider, of local delays (\<^verbatim>\<open>time.sleep\<close>) and of console
  lines (\<^verbatim>\<open>termcolor.cprint\<close>). The provider is not part of the code, so it is a
  parameter of the model: an oracle that answers each call, given everything that happened
  before, with a value or with an exception. Each method is a function from the state
  before the call (the object's fields and the log of events so far) to an outcome (an
  exception or a result) and the state after it.
\<close>

subsection \<open>Exceptions\<close>

text \<open>
  What the code or its collaborators raise, each with its message (what
  \<^verbatim>\<open>str(e)\<close> gives). \<open>DaytonaError\<close> is the provider's own class, the only one
  \<^verbatim>\<open>__enter__\<close> handles; \<open>OtherException\<close> stands for any other subclass of
  \<^verbatim>\<open>Exception\<close> a remote call may raise (a timeout, a connection error).
  \<open>KeyboardInterrupt\<close> and \<open>SystemExit\<close> are subclasses of \<^verbatim>\<open>BaseException\<close> that are
  not subclasses of \<^verbatim>\<open>Exception\<close>: a handler \<^verbatim>\<open>except Exception\<close> lets them pass, and
  they can reach the program while a remote call is waiting.
\<close>

datatype exn =
    DaytonaError string
  | ValueError string
  | AttributeError string
  | BinasciiError string
  | OtherException string
  | KeyboardInterrupt string
  | SystemExit string

fun str_of_exn :: "exn \<Rightarrow> string" where
  "str_of_exn (DaytonaError m) = m"
| "str_of_exn (ValueError m) = m"
| "str_of_exn (AttributeError m) = m"
| "str_of_exn (BinasciiError m) = m"
| "str_of_exn (OtherException m) = m"
| "str_of_exn (KeyboardInterrupt m) = m"
| "str_of_exn (SystemExit m) = m"

text \<open>What \<^verbatim>\<open>except Exception\<close> covers, and what \<^verbatim>\<open>except DaytonaError\<close> covers.\<close>

fun is_Exception :: "exn \<Rightarrow> bool" where
  "is_Exception (KeyboardInterrupt m) = False"
| "is_Exception (SystemExit m) = False"
| "is_Exception _ = True"

fun is_DaytonaError :: "exn \<Rightarrow> bool" where
  "is_DaytonaError (DaytonaError m) = True"
| "is_DaytonaError _ = False"

text \<open>What reading attribute \<open>a\<close> of \<^verbatim>\<open>None\<close> raises.\<close>

definition none_has_no_attribute :: "string \<Rightarrow> exn" where
  "none_has_no_attribute a =
     AttributeError ([CHR 0x27] @ ''NoneType'' @ [CHR 0x27] @ '' object has no attribute ''
                     @ [CHR 0x27] @ a @ [CHR 0x27])"

subsection \<open>The provider's calls and the event log\<close>

type_synonym bytes = "8 word list"

text \<open>The methods of a sandbox object that the adapter calls, with their arguments.\<close>

datatype sandbox_op =
    ComputerUseStart
  | Delete
  | ProcessExec string int
  | MouseClick int int "string option"
  | MouseMove int int
  | MouseDrag int int int int
  | KeyboardPress string
  | KeyboardHotkey string
  | KeyboardType string "int option"
  | ScreenshotTakeCompressed string bool

text \<open>
  A call is either \<^verbatim>\<open>Daytona.create\<close> on the client (the client's API key and the three
  parameters of \<^verbatim>\<open>CreateSandboxFromSnapshotParams\<close>) or a method of the sandbox with
  the given id.
\<close>

datatype remote_call =
    DaytonaCreate string bool "string option" int
  | OnSandbox string sandbox_op

text \<open>
  What a method leaves behind, in order: a remote call with its answer, a delay in
  milliseconds, a console line (text, colour, attributes).
\<close>

datatype event =
    Remote remote_call "exn + string"
  | Sleep nat
  | Cprint string string "string list"

text \<open>
  The world outside the object: the process environment (\<^verbatim>\<open>os.environ\<close>) and the
  provider. The provider answers a call, knowing the events so far, with an exception or
  with a string: the id of the new sandbox for \<open>DaytonaCreate\<close>, the base64 text of the
  image for \<open>ScreenshotTakeCompressed\<close>; the code ignores what the other calls return.
\<close>

record env =
  environ :: "string \<Rightarrow> string option"
  respond :: "event list \<Rightarrow> remote_call \<Rightarrow> exn + string"

subsection \<open>The object and its constructor\<close>

record computer =
  self_screen_size :: "int \<times> int"
  self_initial_url :: string
  self_search_engine_url :: string
  self_network_block_all :: bool
  self_network_allow_list :: "string option"
  self_auto_stop_interval :: int
  self_daytona :: "string option"
  self_sandbox :: "string option"
  self_current_url :: string

record EnvState =
  screenshot :: bytes
  url :: string

record state =
  adapter :: computer
  trace :: "event list"

text \<open>
  \<^verbatim>\<open>__init__\<close>. Its defaults are \<^verbatim>\<open>"https://www.duckduckgo.com/"\<close>,
  \<^verbatim>\<open>"https://duckduckgo.com/"\<close>, \<^verbatim>\<open>False\<close>, \<^verbatim>\<open>"0.0.0.0/0"\<close> and \<^verbatim>\<open>30\<close>.
\<close>

definition init :: "int \<times> int \<Rightarrow> string \<Rightarrow> string \<Rightarrow> bool \<Rightarrow> string option \<Rightarrow> int \<Rightarrow> computer" where
  "init screen_size initial_url search_engine_url network_block_all network_allow_list
        auto_stop_interval =
     \<lparr> self_screen_size = screen_size,
       self_initial_url = initial_url,
       self_search_engine_url = search_engine_url,
       self_network_block_all = network_block_all,
       self_network_allow_list = network_allow_list,
       self_auto_stop_interval = auto_stop_interval,
       self_daytona = None,
       self_sandbox = None,
       self_current_url = initial_url \<rparr>"

text \<open>The three delays of the module, 0.1, 0.5 and 1.0 seconds, in milliseconds.\<close>

definition SLEEP_ACTION :: nat where "SLEEP_ACTION = 100"
definition SLEEP_SCREENSHOT :: nat where "SLEEP_SCREENSHOT = 500"
definition SLEEP_NAVIGATION :: nat where "SLEEP_NAVIGATION = 1000"

definition DAYTONA_KEY_MAP :: "string \<Rightarrow> string option" where
  "DAYTONA_KEY_MAP =
     map_of [(''control'', ''ctrl''), (''command'', ''cmd''), (''meta'', ''cmd'')]"

subsection \<open>Statements\<close>

text \<open>
  A piece of a method body: it runs in a state and ends with an exception or a value,
  and with the state it has reached (an exception does not undo what was done before it).
\<close>

type_synonym 'a prog = "state \<Rightarrow> (exn + 'a) \<times> state"

definition succeed :: "'a \<Rightarrow> 'a prog" where
  "succeed x s = (Inr x, s)"

definition raise_exn :: "exn \<Rightarrow> 'a prog" where
  "raise_exn e s = (Inl e, s)"

definition and_then :: "'a prog \<Rightarrow> ('a \<Rightarrow> 'b prog) \<Rightarrow> 'b prog" where
  "and_then m f s = (case m s of (Inl e, s') \<Rightarrow> (Inl e, s') | (Inr x, s') \<Rightarrow> f x s')"

text \<open>Statements one after the other; the first exception ends the sequence.\<close>

fun do_all :: "unit prog list \<Rightarrow> unit prog" where
  "do_all [] = succeed ()"
| "do_all (m # ms) = and_then m (\<lambda>_. do_all ms)"

text \<open>A method body: statements, then the expression of the \<^verbatim>\<open>return\<close>.\<close>

definition block :: "unit prog list \<Rightarrow> 'a prog \<Rightarrow> 'a prog" where
  "block ms r = and_then (do_all ms) (\<lambda>_. r)"

text \<open>
  \<^verbatim>\<open>try: m  except C as e: h e\<close>, where \<open>handles\<close> says which exceptions class \<open>C\<close>
  covers.
\<close>

definition try_except :: "'a prog \<Rightarrow> (exn \<Rightarrow> bool) \<Rightarrow> (exn \<Rightarrow> 'a prog) \<Rightarrow> 'a prog" where
  "try_except m handles h s =
     (case m s of
        (Inl e, s') \<Rightarrow> if handles e then h e s' else (Inl e, s')
      | (Inr x, s') \<Rightarrow> (Inr x, s'))"

definition log_event :: "event \<Rightarrow> unit prog" where
  "log_event ev s = (Inr (), s\<lparr>trace := trace s @ [ev]\<rparr>)"

definition sleep :: "nat \<Rightarrow> unit prog" where
  "sleep ms = log_event (Sleep ms)"

definition cprint :: "string \<Rightarrow> string \<Rightarrow> string list \<Rightarrow> unit prog" where
  "cprint text color attrs = log_event (Cprint text color attrs)"

text \<open>A call to the provider: the answer is the oracle's, and the call is logged with it.\<close>

definition remote :: "env \<Rightarrow> remote_call \<Rightarrow> string prog" where
  "remote E c s =
     (let r = respond E (trace s) c in (r, s\<lparr>trace := trace s @ [Remote c r]\<rparr>))"

text \<open>
  A method of \<^verbatim>\<open>self._sandbox\<close>, reached through attribute \<open>a\<close>
  (\<^verbatim>\<open>self._sandbox.computer_use...\<close>): on \<^verbatim>\<open>None\<close> the attribute access raises.
\<close>

definition on_sandbox :: "env \<Rightarrow> string \<Rightarrow> sandbox_op \<Rightarrow> string prog" where
  "on_sandbox E a c s =
     (case self_sandbox (adapter s) of
        None \<Rightarrow> (Inl (none_has_no_attribute a), s)
      | Some sb \<Rightarrow> remote E (OnSandbox sb c) s)"

definition call :: "env \<Rightarrow> string \<Rightarrow> sandbox_op \<Rightarrow> unit prog" where
  "call E a c = and_then (on_sandbox E a c) (\<lambda>_. succeed ())"

definition computer_use :: "env \<Rightarrow> sandbox_op \<Rightarrow> unit prog" where
  "computer_use E c = call E ''computer_use'' c"

subsection \<open>The standard library\<close>

text \<open>
  \<^verbatim>\<open>str.lower\<close> on the ASCII letters. Python lowers other letters too, but the result is
  only compared with the three ASCII keys of \<open>DAYTONA_KEY_MAP\<close>, and no character outside
  ASCII lowers to a letter that occurs in them.
\<close>

definition lower_char :: "char \<Rightarrow> char" where
  "lower_char c =
     (let n = (of_char c :: nat) in if 65 \<le> n \<and> n \<le> 90 then char_of (n + 32) else c)"

definition lower :: "string \<Rightarrow> string" where
  "lower s = map lower_char s"

definition startswith :: "string \<Rightarrow> string \<Rightarrow> bool" where
  "startswith s p = (take (length p) s = p)"

fun join :: "string \<Rightarrow> string list \<Rightarrow> string" where
  "join sep [] = []"
| "join sep [x] = x"
| "join sep (x # y # ys) = x @ sep @ join sep (y # ys)"

fun show_nat :: "nat \<Rightarrow> string" where
  "show_nat n = (if n < 10 then [''0123456789'' ! n]
                 else show_nat (n div 10) @ [''0123456789'' ! (n mod 10)])"

declare show_nat.simps [simp del]

text \<open>
  \<^verbatim>\<open>base64.b64decode(s)\<close> for a \<^verbatim>\<open>str\<close>, with its default \<^verbatim>\<open>validate=False\<close>: the
  text must be ASCII; characters outside the alphabet are skipped; every four letters give
  three bytes; padding that completes a group ends the input; an incomplete group is an
  error (\<^verbatim>\<open>binascii.Error\<close>). This follows CPython's \<^verbatim>\<open>binascii.a2b_base64\<close>.
  A character from 128 on stands for a character outside ASCII.
\<close>

definition table_a2b_base64 :: "char \<Rightarrow> 8 word option" where
  "table_a2b_base64 c =
     (let n = (of_char c :: nat) in
      if 65 \<le> n \<and> n \<le> 90 then Some (of_nat (n - 65))
      else if 97 \<le> n \<and> n \<le> 122 then Some (of_nat (n - 71))
      else if 48 \<le> n \<and> n \<le> 57 then Some (of_nat (n + 4))
      else if n = 43 then Some 62
      else if n = 47 then Some 63
      else None)"

fun a2b_base64 :: "string \<Rightarrow> nat \<Rightarrow> 8 word \<Rightarrow> nat \<Rightarrow> bytes \<Rightarrow> exn + bytes" where
  "a2b_base64 [] quad_pos leftchar pads bin_data =
     (if quad_pos \<noteq> 0 then
        (if quad_pos = 1 then
           Inl (BinasciiError (''Invalid base64-encoded string: number of data characters (''
                  @ show_nat (length bin_data div 3 * 4 + 1)
                  @ '') cannot be 1 more than a multiple of 4''))
         else Inl (BinasciiError ''Incorrect padding''))
      else Inr bin_data)"
| "a2b_base64 (c # cs) quad_pos leftchar pads bin_data =
     (if c = CHR ''='' then
        (if quad_pos \<ge> 2 \<and> quad_pos + (pads + 1) \<ge> 4 then Inr bin_data
         else a2b_base64 cs quad_pos leftchar (if quad_pos \<ge> 2 then pads + 1 else pads)
                bin_data)
      else
        (case table_a2b_base64 c of
           None \<Rightarrow> a2b_base64 cs quad_pos leftchar pads bin_data
         | Some this_ch \<Rightarrow>
             (if quad_pos = 0 then a2b_base64 cs 1 this_ch 0 bin_data
              else if quad_pos = 1 then
                a2b_base64 cs 2 (this_ch AND 0x0f) 0
                  (bin_data @ [push_bit 2 leftchar OR drop_bit 4 this_ch])
              else if quad_pos = 2 then
                a2b_base64 cs 3 (this_ch AND 0x03) 0
                  (bin_data @ [push_bit 4 leftchar OR drop_bit 2 this_ch])
              else
                a2b_base64 cs 0 0 0 (bin_data @ [push_bit 6 leftchar OR this_ch]))))"

definition b64decode :: "string \<Rightarrow> exn + bytes" where
  "b64decode s =
     (if list_ex (\<lambda>c. 128 \<le> (of_char c :: nat)) s
      then Inl (ValueError ''string argument should contain only ASCII characters'')
      else a2b_base64 s 0 0 0 [])"

subsection \<open>The methods\<close>

text \<open>
  \<^verbatim>\<open>current_state\<close>: the delay, then the capture and its decoding inside one
  \<^verbatim>\<open>try\<close> whose handler (\<^verbatim>\<open>except Exception\<close>) prints and re-raises; the URL is read
  from the object after that.
\<close>

definition current_state :: "env \<Rightarrow> EnvState prog" where
  "current_state E =
     and_then (sleep SLEEP_SCREENSHOT) (\<lambda>_.
     and_then
       (try_except
          (and_then (on_sandbox E ''computer_use'' (ScreenshotTakeCompressed ''png'' True))
             (\<lambda>screenshot. case b64decode screenshot of
                               Inl e \<Rightarrow> raise_exn e
                             | Inr screenshot_bytes \<Rightarrow> succeed screenshot_bytes))
          is_Exception
          (\<lambda>e. block [cprint (''Screenshot failed: '' @ str_of_exn e) ''red'' []]
                  (raise_exn e)))
       (\<lambda>screenshot_bytes s.
          (Inr \<lparr> screenshot = screenshot_bytes, url = self_current_url (adapter s) \<rparr>, s)))"

text \<open>
  \<^verbatim>\<open>__enter__\<close>. The client is built from the API key of the environment (the empty
  string when unset); building it and the parameter object are plain data. The
  \<^verbatim>\<open>try\<close> covers the creation, the assignment of the handle, the start of computer use
  and the success line; its handler covers \<^verbatim>\<open>DaytonaError\<close> only.
\<close>

definition create_sandbox :: "env \<Rightarrow> unit prog" where
  "create_sandbox E s =
     (case self_daytona (adapter s) of
        None \<Rightarrow> (Inl (none_has_no_attribute ''create''), s)
      | Some api_key \<Rightarrow>
          and_then
            (remote E (DaytonaCreate api_key
                         (self_network_block_all (adapter s))
                         (self_network_allow_list (adapter s))
                         (self_auto_stop_interval (adapter s))))
            (\<lambda>sb s'. (Inr (), s'\<lparr>adapter := (adapter s')\<lparr>self_sandbox := Some sb\<rparr>\<rparr>))
            s)"

definition print_started :: "unit prog" where
  "print_started s =
     (case self_sandbox (adapter s) of
        None \<Rightarrow> (Inl (none_has_no_attribute ''id''), s)
      | Some sb \<Rightarrow> cprint (''Daytona sandbox started: '' @ sb) ''green'' [''bold''] s)"

definition enter :: "env \<Rightarrow> unit prog" where
  "enter E =
     block
       [(\<lambda>s. (Inr (), s\<lparr>adapter := (adapter s)\<lparr>self_daytona :=
                 Some (case environ E ''DAYTONA_API_KEY'' of Some k \<Rightarrow> k | None \<Rightarrow> '''')\<rparr>\<rparr>)),
        try_except
          (do_all [create_sandbox E, computer_use E ComputerUseStart, print_started])
          is_DaytonaError
          (\<lambda>e. block [cprint (''Failed to create sandbox: '' @ str_of_exn e) ''red'' []]
                  (raise_exn e))]
       (succeed ())"

text \<open>\<^verbatim>\<open>__exit__\<close>: its three arguments are not used.\<close>

definition exit :: "env \<Rightarrow> unit prog" where
  "exit E s =
     (if self_sandbox (adapter s) \<noteq> None then
        try_except (call E ''delete'' Delete) is_Exception
          (\<lambda>e. cprint (''Sandbox cleanup failed: '' @ str_of_exn e) ''red'' []) s
      else (Inr (), s))"

definition screen_size :: "state \<Rightarrow> int \<times> int" where
  "screen_size s = self_screen_size (adapter s)"

definition open_web_browser :: "env \<Rightarrow> EnvState prog" where
  "open_web_browser E s =
     (let cmd = ''sh -c '' @ [CHR 0x27] @ ''DISPLAY=:0 xdg-open '' @ [CHR 0x22]
                @ self_initial_url (adapter s) @ [CHR 0x22] @ '' > /dev/null 2>&1 &''
                @ [CHR 0x27]
      in block
           [call E ''process'' (ProcessExec cmd 1),
            sleep SLEEP_NAVIGATION,
            (\<lambda>s'. (Inr (), s'\<lparr>adapter := (adapter s')\<lparr>self_current_url :=
                      self_initial_url (adapter s')\<rparr>\<rparr>))]
           (current_state E) s)"

definition click_at :: "env \<Rightarrow> int \<Rightarrow> int \<Rightarrow> EnvState prog" where
  "click_at E x y =
     block [computer_use E (MouseClick x y (Some ''left'')), sleep SLEEP_ACTION]
       (current_state E)"

definition hover_at :: "env \<Rightarrow> int \<Rightarrow> int \<Rightarrow> EnvState prog" where
  "hover_at E x y =
     block [computer_use E (MouseMove x y), sleep SLEEP_ACTION] (current_state E)"

definition type_text_at :: "env \<Rightarrow> int \<Rightarrow> int \<Rightarrow> string \<Rightarrow> bool \<Rightarrow> bool \<Rightarrow> EnvState prog" where
  "type_text_at E x y text press_enter clear_before_typing =
     block
       [computer_use E (MouseClick x y (Some ''left'')),
        sleep SLEEP_ACTION,
        (if clear_before_typing
         then do_all [computer_use E (KeyboardPress ''ctrl+a''), sleep SLEEP_ACTION]
         else succeed ()),
        computer_use E (KeyboardType text (Some 50)),
        (if press_enter
         then do_all [computer_use E (KeyboardPress ''enter''), sleep SLEEP_NAVIGATION]
         else sleep SLEEP_ACTION)]
       (current_state E)"

text \<open>
  \<^verbatim>\<open>scroll_at\<close>: the click comes first, then the choice on the direction, whose last
  branch raises. The parameter \<open>magnitude\<close> is not used in the body.
\<close>

definition scroll_at :: "env \<Rightarrow> int \<Rightarrow> int \<Rightarrow> string \<Rightarrow> int \<Rightarrow> EnvState prog" where
  "scroll_at E x y direction magnitude =
     block
       [computer_use E (MouseClick x y None),
        sleep SLEEP_ACTION,
        (if direction = ''down'' then computer_use E (KeyboardPress ''pagedown'')
         else if direction = ''up'' then computer_use E (KeyboardPress ''pageup'')
         else if direction = ''right'' then computer_use E (KeyboardPress ''space'')
         else if direction = ''left'' then computer_use E (KeyboardHotkey ''shift+space'')
         else raise_exn (ValueError (''Unsupported direction: '' @ direction))),
        sleep SLEEP_ACTION]
       (current_state E)"

text \<open>
  \<^verbatim>\<open>scroll_document\<close>: the branch for left and right returns what \<^verbatim>\<open>scroll_at\<close>
  returns; the branches for down and up go on to the delay and the capture that follow
  the choice; the last branch raises.
\<close>

definition scroll_document :: "env \<Rightarrow> string \<Rightarrow> EnvState prog" where
  "scroll_document E direction s =
     (if direction = ''down'' then
        block [computer_use E (KeyboardPress ''pagedown''), sleep SLEEP_ACTION]
          (current_state E) s
      else if direction = ''up'' then
        block [computer_use E (KeyboardPress ''pageup''), sleep SLEEP_ACTION]
          (current_state E) s
      else if direction = ''left'' \<or> direction = ''right'' then
        (let scroll_amount = fst (self_screen_size (adapter s)) div 2;
             center_x = fst (self_screen_size (adapter s)) div 2;
             center_y = snd (self_screen_size (adapter s)) div 2
         in scroll_at E center_x center_y direction scroll_amount s)
      else raise_exn (ValueError (''Unsupported direction: '' @ direction)) s)"

definition wait_5_seconds :: "env \<Rightarrow> EnvState prog" where
  "wait_5_seconds E = block [sleep 5000] (current_state E)"

definition go_back :: "env \<Rightarrow> EnvState prog" where
  "go_back E =
     block [computer_use E (KeyboardHotkey ''alt+left''), sleep SLEEP_NAVIGATION]
       (current_state E)"

definition go_forward :: "env \<Rightarrow> EnvState prog" where
  "go_forward E =
     block [computer_use E (KeyboardHotkey ''alt+right''), sleep SLEEP_NAVIGATION]
       (current_state E)"

definition navigate :: "env \<Rightarrow> string \<Rightarrow> EnvState prog" where
  "navigate E url_arg =
     (let normalized_url =
            (if \<not> (startswith url_arg ''http://'' \<or> startswith url_arg ''https://'')
             then ''https://'' @ url_arg else url_arg)
      in block
           [(\<lambda>s. (Inr (), s\<lparr>adapter := (adapter s)\<lparr>self_current_url := normalized_url\<rparr>\<rparr>)),
            computer_use E (KeyboardPress ''f6''),
            sleep SLEEP_ACTION,
            computer_use E (KeyboardType normalized_url None),
            sleep SLEEP_ACTION,
            computer_use E (KeyboardPress ''enter''),
            sleep SLEEP_NAVIGATION]
           (current_state E))"

definition search :: "env \<Rightarrow> EnvState prog" where
  "search E s = navigate E (self_search_engine_url (adapter s)) s"

definition key_combination :: "env \<Rightarrow> string list \<Rightarrow> EnvState prog" where
  "key_combination E keys =
     (let normalized_keys =
            map (\<lambda>k. case DAYTONA_KEY_MAP (lower k) of Some v \<Rightarrow> v | None \<Rightarrow> k) keys
      in if length normalized_keys = 1 then
           block [computer_use E (KeyboardPress (normalized_keys ! 0)), sleep SLEEP_ACTION]
             (current_state E)
         else
           (let hotkey_str = join ''+'' normalized_keys
            in block [computer_use E (KeyboardHotkey hotkey_str), sleep SLEEP_ACTION]
                 (current_state E)))"

definition drag_and_drop :: "env \<Rightarrow> int \<Rightarrow> int \<Rightarrow> int \<Rightarrow> int \<Rightarrow> EnvState prog" where
  "drag_and_drop E x y destination_x destination_y =
     block [computer_use E (MouseDrag x y destination_x destination_y), sleep SLEEP_ACTION]
       (current_state E)"

subsection \<open>Calls of the methods\<close>

text \<open>
  The methods that return an \<open>EnvState\<close>, as values, so that a statement can speak of
  every method and of a caller that makes one call after the other. An exception goes to
  the caller, who still holds the object and may call again: \<open>run\<close> goes on from the state
  the call has left.
\<close>

datatype action =
    OpenWebBrowser
  | ClickAt int int
  | HoverAt int int
  | TypeTextAt int int string bool bool
  | ScrollDocument string
  | ScrollAt int int string int
  | Wait5Seconds
  | GoBack
  | GoForward
  | Search
  | Navigate string
  | KeyCombination "string list"
  | DragAndDrop int int int int
  | CurrentState

fun perform :: "env \<Rightarrow> action \<Rightarrow> EnvState prog" where
  "perform E OpenWebBrowser = open_web_browser E"
| "perform E (ClickAt x y) = click_at E x y"
| "perform E (HoverAt x y) = hover_at E x y"
| "perform E (TypeTextAt x y text press_enter clear_before_typing) =
     type_text_at E x y text press_enter clear_before_typing"
| "perform E (ScrollDocument direction) = scroll_document E direction"
| "perform E (ScrollAt x y direction magnitude) = scroll_at E x y direction magnitude"
| "perform E Wait5Seconds = wait_5_seconds E"
| "perform E GoBack = go_back E"
| "perform E GoForward = go_forward E"
| "perform E Search = search E"
| "perform E (Navigate u) = navigate E u"
| "perform E (KeyCombination keys) = key_combination E keys"
| "perform E (DragAndDrop x y destination_x destination_y) =
     drag_and_drop E x y destination_x destination_y"
| "perform E CurrentState = current_state E"

fun run :: "env \<Rightarrow> action list \<Rightarrow> state \<Rightarrow> state" where
  "run E [] s = s"
| "run E (a # as) s = run E as (snd (perform E a s))"

text \<open>
  The methods whose body assigns \<^verbatim>\<open>self._current_url\<close>: \<^verbatim>\<open>open_web_browser\<close>,
  \<^verbatim>\<open>navigate\<close>, and \<^verbatim>\<open>search\<close>, which calls \<^verbatim>\<open>navigate\<close>.
\<close>

fun sets_url :: "action \<Rightarrow> bool" where
  "sets_url OpenWebBrowser = True"
| "sets_url Search = True"
| "sets_url (Navigate u) = True"
| "sets_url _ = False"

subsection \<open>Reading the log\<close>

fun remote_calls :: "event list \<Rightarrow> remote_call list" where
  "remote_calls [] = []"
| "remote_calls (Remote c r # evs) = c # remote_calls evs"
| "remote_calls (Sleep ms # evs) = remote_calls evs"
| "remote_calls (Cprint t col a # evs) = remote_calls evs"

fun is_capture :: "remote_call \<Rightarrow> bool" where
  "is_capture (OnSandbox sb (ScreenshotTakeCompressed f c)) = True"
| "is_capture _ = False"

text \<open>The calls that act on the remote desktop: all but the capture of the screen.\<close>

definition input_calls :: "event list \<Rightarrow> remote_call list" where
  "input_calls evs = filter (\<lambda>c. \<not> is_capture c) (remote_calls evs)"

text \<open>The events between an earlier state and a later one.\<close>

definition issued :: "state \<Rightarrow> state \<Rightarrow> event list" where
  "issued s s' = drop (length (trace s)) (trace s')"

text \<open>The events that \<^verbatim>\<open>current_state\<close> adds when it is called in a state.\<close>

definition capture_events :: "env \<Rightarrow> state \<Rightarrow> event list" where
  "capture_events E s = issued s (snd (current_state E s))"

text \<open>
  The sandboxes that run at the end of a log: those a creation has returned and no
  deletion that succeeded has removed.
\<close>

fun running_after :: "string list \<Rightarrow> event list \<Rightarrow> string list" where
  "running_after rs [] = rs"
| "running_after rs (Remote (DaytonaCreate k b a i) (Inr sb) # evs) =
     running_after (rs @ [sb]) evs"
| "running_after rs (Remote (OnSandbox sb Delete) (Inr r) # evs) =
     running_after (removeAll sb rs) evs"
| "running_after rs (ev # evs) = running_after rs evs"

definition running :: "event list \<Rightarrow> string list" where
  "running evs = running_after [] evs"

subsection \<open>The specification's words\<close>

text \<open>The four directions the specification names.\<close>

definition supported_direction :: "string \<Rightarrow> bool" where
  "supported_direction d = (d = ''up'' \<or> d = ''down'' \<or> d = ''left'' \<or> d = ''right'')"

text \<open>
  The translation of a key name as the specification words it: the name is lowercased and
  looked up among \<open>control\<close>, \<open>command\<close> and \<open>meta\<close>; a name that is none of them passes
  through as it was given.
\<close>

definition spec_key_token :: "string \<Rightarrow> string" where
  "spec_key_token k =
     (if lower k = ''control'' then ''ctrl''
      else if lower k = ''command'' \<or> lower k = ''meta'' then ''cmd''
      else k)"

text \<open>
  ``A scheme is present'', read as for any URL: a scheme name (a letter, then letters,
  digits, \<open>+\<close>, \<open>-\<close> or \<open>.\<close>) followed by \<open>://\<close>.
\<close>

definition is_alpha :: "char \<Rightarrow> bool" where
  "is_alpha c =
     (let n = (of_char c :: nat) in (65 \<le> n \<and> n \<le> 90) \<or> (97 \<le> n \<and> n \<le> 122))"

definition is_scheme_char :: "char \<Rightarrow> bool" where
  "is_scheme_char c =
     (let n = (of_char c :: nat)
      in is_alpha c \<or> (48 \<le> n \<and> n \<le> 57) \<or> n = 43 \<or> n = 45 \<or> n = 46)"

definition spec_scheme_present :: "string \<Rightarrow> bool" where
  "spec_scheme_present u =
     (let name = takeWhile is_scheme_char u
      in name \<noteq> [] \<and> is_alpha (hd name) \<and> startswith (drop (length name) u) ''://'')"

subsection \<open>Example worlds\<close>

text \<open>
  A provider that answers every call: the new sandbox is \<open>sb-1\<close>, the screen is the base64
  text \<open>aGk=\<close> (the two bytes \<open>hi\<close>). The others differ from it in one call.
\<close>

fun reply_ok :: "remote_call \<Rightarrow> exn + string" where
  "reply_ok (DaytonaCreate k b a i) = Inr ''sb-1''"
| "reply_ok (OnSandbox sb (ScreenshotTakeCompressed f c)) = Inr ''aGk=''"
| "reply_ok (OnSandbox sb other) = Inr ''''"

definition provider_ok :: env where
  "provider_ok = \<lparr> environ = (\<lambda>name. None), respond = (\<lambda>tr. reply_ok) \<rparr>"

definition provider_create_fails :: env where
  "provider_create_fails =
     \<lparr> environ = (\<lambda>name. None),
       respond = (\<lambda>tr c. case c of
                            DaytonaCreate k b a i \<Rightarrow> Inl (DaytonaError ''quota exceeded'')
                          | OnSandbox sb other \<Rightarrow> reply_ok c) \<rparr>"

definition provider_start_fails :: env where
  "provider_start_fails =
     \<lparr> environ = (\<lambda>name. None),
       respond = (\<lambda>tr c. if c = OnSandbox ''sb-1'' ComputerUseStart
                          then Inl (DaytonaError ''computer use failed to start'')
                          else reply_ok c) \<rparr>"

definition provider_delete_fails :: env where
  "provider_delete_fails =
     \<lparr> environ = (\<lambda>name. None),
       respond = (\<lambda>tr c. if c = OnSandbox ''sb-1'' Delete
                          then Inl (OtherException ''connection reset'') else reply_ok c) \<rparr>"

definition provider_delete_interrupted :: env where
  "provider_delete_interrupted =
     \<lparr> environ = (\<lambda>name. None),
       respond = (\<lambda>tr c. if c = OnSandbox ''sb-1'' Delete
                          then Inl (KeyboardInterrupt []) else reply_ok c) \<rparr>"

definition provider_bad_capture :: env where
  "provider_bad_capture =
     \<lparr> environ = (\<lambda>name. None),
       respond = (\<lambda>tr c. if c = OnSandbox ''sb-1'' (ScreenshotTakeCompressed ''png'' True)
                          then Inr ''A'' else reply_ok c) \<rparr>"

text \<open>The object as the constructor leaves it, and as a successful start leaves it.\<close>

definition fresh :: state where
  "fresh = \<lparr> adapter = init (1000, 700) ''https://www.duckduckgo.com/''
                        ''https://duckduckgo.com/'' False (Some ''0.0.0.0/0'') 30,
             trace = [] \<rparr>"

definition session :: state where
  "session =
     \<lparr> adapter = (adapter fresh)\<lparr>self_daytona := Some '''', self_sandbox := Some ''sb-1''\<rparr>,
       trace = [Remote (DaytonaCreate '''' False (Some ''0.0.0.0/0'') 30) (Inr ''sb-1''),
                Remote (OnSandbox ''sb-1'' ComputerUseStart) (Inr ''''),
                Cprint ''Daytona sandbox started: sb-1'' ''green'' [''bold'']] \<rparr>"

section \<open>Properties\<close>

subsection \<open>Auxiliary facts\<close>

lemmas prog_defs = block_def and_then_def try_except_def succeed_def raise_exn_def
  log_event_def sleep_def cprint_def remote_def on_sandbox_def call_def computer_use_def
  Let_def

lemmas method_defs = open_web_browser_def click_at_def hover_at_def type_text_at_def
  scroll_document_def scroll_at_def wait_5_seconds_def go_back_def go_forward_def search_def
  navigate_def key_combination_def drag_and_drop_def

lemma remote_calls_append [simp]:
  "remote_calls (xs @ ys) = remote_calls xs @ remote_calls ys"
  by (induction xs rule: remote_calls.induct) simp_all

lemma input_calls_append [simp]:
  "input_calls (xs @ ys) = input_calls xs @ input_calls ys"
  by (simp add: input_calls_def)

lemma input_calls_simps [simp]:
  "input_calls [] = []"
  "input_calls (Sleep ms # evs) = input_calls evs"
  "input_calls (Cprint t col a # evs) = input_calls evs"
  "input_calls (Remote c r # evs) = (if is_capture c then input_calls evs else c # input_calls evs)"
  by (simp_all add: input_calls_def)

lemma running_after_append:
  "running_after rs (xs @ ys) = running_after (running_after rs xs) ys"
  by (induction rs xs rule: running_after.induct) simp_all

lemma running_append: "running (xs @ ys) = running_after (running xs) ys"
  by (simp add: running_def running_after_append)

lemma none_attribute_is_Exception [simp]: "is_Exception (none_has_no_attribute a)"
  by (simp add: none_has_no_attribute_def)

text \<open>\<^verbatim>\<open>current_state\<close> only adds to the log, and what it adds is the capture.\<close>

lemma current_state_snd:
  "snd (current_state E s) = s\<lparr>trace := trace s @ capture_events E s\<rparr>"
  by (simp add: capture_events_def issued_def current_state_def prog_defs
           split: option.splits sum.splits prod.splits if_splits)

lemma capture_events_input [simp]: "input_calls (capture_events E s) = []"
  by (simp add: capture_events_def issued_def current_state_def prog_defs
           split: option.splits sum.splits prod.splits if_splits)

lemma current_state_fst_url:
  "fst (current_state E s) = Inr st \<Longrightarrow> url st = self_current_url (adapter s)"
  by (auto simp add: current_state_def prog_defs split: option.splits sum.splits prod.splits if_splits)

lemma current_state_Inr:
  assumes "current_state E s = (Inr st, s')"
  shows "url st = self_current_url (adapter s')"
proof -
  have "url st = self_current_url (adapter s)"
    using assms current_state_fst_url [of E s st] by simp
  moreover have "adapter s' = adapter s"
    using assms current_state_snd [of E s] by simp
  ultimately show ?thesis by simp
qed

lemma startswith_iff: "startswith u p \<longleftrightarrow> (\<exists>r. u = p @ r)"
  unfolding startswith_def
  by (metis append_eq_conv_conj append_take_drop_id)

lemma key_map_token:
  "(case DAYTONA_KEY_MAP (lower k) of Some v \<Rightarrow> v | None \<Rightarrow> k) = spec_key_token k"
  by (simp add: DAYTONA_KEY_MAP_def spec_key_token_def)

text \<open>A successful start on the fresh object gives the example session.\<close>

lemma enter_fresh: "enter provider_ok fresh = (Inr (), session)"
  by (simp add: enter_def provider_ok_def fresh_def session_def init_def create_sandbox_def
        print_started_def prog_defs)

lemma enter_ok_sandbox:
  "enter E s = (Inr (), s1) \<Longrightarrow> \<exists>sb. self_sandbox (adapter s1) = Some sb"
  by (auto simp add: enter_def create_sandbox_def print_started_def prog_defs
      split: option.splits sum.splits prod.splits if_splits)

text \<open>
  Every method hands back the URL the object holds when it returns, and a method that is
  not one of the three above leaves every field of the object as it was.
\<close>

lemma returned_url:
  "perform E a s = (Inr st, s') \<Longrightarrow> url st = self_current_url (adapter s')"
  by (cases a)
     (auto simp add: method_defs prog_defs dest!: current_state_Inr
           split: option.splits sum.splits prod.splits if_splits)

lemma perform_frame:
  "\<not> sets_url a \<Longrightarrow> adapter (snd (perform E a s)) = adapter s"
  by (cases a)
     (auto simp add: method_defs prog_defs current_state_snd
           split: option.splits sum.splits prod.splits if_splits)

lemma run_frame:
  "list_all (\<lambda>a. \<not> sets_url a) as \<Longrightarrow> adapter (run E as s) = adapter s"
  by (induction as arbitrary: s) (simp_all add: perform_frame)

subsection \<open>Unsupported scroll directions\<close>

text \<open>
  C1, as amended. For a direction that is none of up, down, left and right,
  \<^verbatim>\<open>scroll_document\<close> raises \<^verbatim>\<open>ValueError\<close> (the specification's
  \<open>InvalidArgumentError\<close>) and leaves the state as it was: no remote call, no delay.
  \<^verbatim>\<open>scroll_at\<close> does not: it first clicks at the given point. Without a session the
  click cannot be made and the attribute error is raised; if the click raises, that
  exception is raised; if the click succeeds, the delay follows and then \<^verbatim>\<open>ValueError\<close>
  is raised, with the click as the only remote call and no key event or capture.
\<close>

theorem unsupported_direction:
  assumes "\<not> supported_direction d"
  shows "scroll_document E d s = (Inl (ValueError (''Unsupported direction: '' @ d)), s)
       \<and> scroll_at E x y d m s =
           (case self_sandbox (adapter s) of
              None \<Rightarrow> (Inl (none_has_no_attribute ''computer_use''), s)
            | Some sb \<Rightarrow>
               (case respond E (trace s) (OnSandbox sb (MouseClick x y None)) of
                  Inl e \<Rightarrow> (Inl e, s\<lparr>trace := trace s @
                              [Remote (OnSandbox sb (MouseClick x y None)) (Inl e)]\<rparr>)
                | Inr r \<Rightarrow> (Inl (ValueError (''Unsupported direction: '' @ d)),
                            s\<lparr>trace := trace s @
                              [Remote (OnSandbox sb (MouseClick x y None)) (Inr r),
                               Sleep SLEEP_ACTION]\<rparr>)))"
  using assms
  by (auto simp add: supported_direction_def scroll_document_def scroll_at_def prog_defs
           split: option.splits sum.splits)

theorem unsupported_direction_witness:
  "\<not> supported_direction ''diagonal''
   \<and> scroll_document provider_ok ''diagonal'' session
       = (Inl (ValueError ''Unsupported direction: diagonal''), session)
   \<and> fst (scroll_at provider_ok 10 20 ''diagonal'' 800 session)
       = Inl (ValueError ''Unsupported direction: diagonal'')
   \<and> remote_calls (issued session (snd (scroll_at provider_ok 10 20 ''diagonal'' 800 session)))
       = [OnSandbox ''sb-1'' (MouseClick 10 20 None)]"
  using unsupported_direction [of "''diagonal''" provider_ok session 10 20 800]
  by (simp add: supported_direction_def provider_ok_def session_def issued_def)

text \<open>
  The claim as it was written fails for \<^verbatim>\<open>scroll_at\<close>: in a session, with the direction
  \<open>diagonal\<close>, the error is raised after a mouse click has been sent.
\<close>

theorem scroll_at_unsupported_counterexample:
  "\<not> supported_direction ''diagonal''
   \<and> scroll_at provider_ok 10 20 ''diagonal'' 800 session =
       (Inl (ValueError ''Unsupported direction: diagonal''),
        session\<lparr>trace := trace session @
          [Remote (OnSandbox ''sb-1'' (MouseClick 10 20 None)) (Inr ''''), Sleep 100]\<rparr>)
   \<and> remote_calls (issued session (snd (scroll_at provider_ok 10 20 ''diagonal'' 800 session)))
       \<noteq> []"
  by (simp add: supported_direction_def scroll_at_def provider_ok_def session_def prog_defs
        SLEEP_ACTION_def issued_def)

subsection \<open>A start that fails\<close>

text \<open>
  C2, as amended. If the creation request of \<^verbatim>\<open>__enter__\<close> raises, \<^verbatim>\<open>__enter__\<close> raises
  that exception, after a red line on the console when it is a \<^verbatim>\<open>DaytonaError\<close>; the
  request is the only remote call, no sandbox runs that did not run before, the stored
  handle is the one from before, and when there was none a following \<^verbatim>\<open>__exit__\<close> does
  nothing: it returns and the state, with its log, is unchanged. If the creation succeeds
  and the start of computer use raises, \<^verbatim>\<open>__enter__\<close> raises that exception too.
\<close>

theorem enter_failure:
  "(let c = DaytonaCreate (case environ E ''DAYTONA_API_KEY'' of Some k \<Rightarrow> k | None \<Rightarrow> '''')
              (self_network_block_all (adapter s)) (self_network_allow_list (adapter s))
              (self_auto_stop_interval (adapter s))
    in (respond E (trace s) c = Inl e \<longrightarrow>
          fst (enter E s) = Inl e
        \<and> trace (snd (enter E s)) = trace s @ [Remote c (Inl e)] @
             (if is_DaytonaError e
              then [Cprint (''Failed to create sandbox: '' @ str_of_exn e) ''red'' []] else [])
        \<and> running (trace (snd (enter E s))) = running (trace s)
        \<and> self_sandbox (adapter (snd (enter E s))) = self_sandbox (adapter s)
        \<and> (self_sandbox (adapter s) = None \<longrightarrow>
             exit E (snd (enter E s)) = (Inr (), snd (enter E s))))
     \<and> (respond E (trace s) c = Inr sb
        \<and> respond E (trace s @ [Remote c (Inr sb)]) (OnSandbox sb ComputerUseStart) = Inl e \<longrightarrow>
          fst (enter E s) = Inl e))"
  by (auto simp add: enter_def exit_def create_sandbox_def print_started_def prog_defs
        running_append
      split: option.splits sum.splits)

theorem enter_failure_witness:
  "respond provider_create_fails (trace fresh) (DaytonaCreate '''' False (Some ''0.0.0.0/0'') 30)
     = Inl (DaytonaError ''quota exceeded'')
   \<and> self_sandbox (adapter fresh) = None
   \<and> fst (enter provider_create_fails fresh) = Inl (DaytonaError ''quota exceeded'')
   \<and> trace (snd (enter provider_create_fails fresh)) =
        [Remote (DaytonaCreate '''' False (Some ''0.0.0.0/0'') 30)
           (Inl (DaytonaError ''quota exceeded'')),
         Cprint ''Failed to create sandbox: quota exceeded'' ''red'' []]
   \<and> running (trace (snd (enter provider_create_fails fresh))) = []
   \<and> self_sandbox (adapter (snd (enter provider_create_fails fresh))) = None
   \<and> exit provider_create_fails (snd (enter provider_create_fails fresh))
       = (Inr (), snd (enter provider_create_fails fresh))"
  using enter_failure [of provider_create_fails fresh "DaytonaError ''quota exceeded''"]
  by (simp add: provider_create_fails_def fresh_def init_def running_def)

text \<open>
  The claim as it was written fails when the failing step is the start of computer use:
  the sandbox has been created and is not deleted, its handle is stored, and a following
  \<^verbatim>\<open>__exit__\<close> sends the deletion.
\<close>

theorem enter_failure_counterexample:
  "fst (enter provider_start_fails fresh) = Inl (DaytonaError ''computer use failed to start'')
   \<and> self_sandbox (adapter (snd (enter provider_start_fails fresh))) = Some ''sb-1''
   \<and> running (trace (snd (enter provider_start_fails fresh))) = [''sb-1'']
   \<and> remote_calls (issued (snd (enter provider_start_fails fresh))
         (snd (exit provider_start_fails (snd (enter provider_start_fails fresh)))))
       = [OnSandbox ''sb-1'' Delete]"
  by (simp add: enter_def exit_def provider_start_fails_def fresh_def init_def create_sandbox_def
        print_started_def prog_defs running_def issued_def)

subsection \<open>The URL that navigate tracks\<close>

text \<open>
  What \<^verbatim>\<open>navigate\<close> leaves in \<^verbatim>\<open>self._current_url\<close>, whatever the provider does.
\<close>

lemma navigate_url:
  "self_current_url (adapter (snd (navigate E u s)))
     = (if startswith u ''http://'' \<or> startswith u ''https://'' then u else ''https://'' @ u)"
  by (auto simp add: navigate_def prog_defs current_state_snd split: option.splits sum.splits)

text \<open>
  C3, as amended. \<^verbatim>\<open>navigate\<close> puts \<open>https://\<close> in front of the URL if and only if the
  URL does not begin with \<open>http://\<close> or with \<open>https://\<close>, compared as written; the result
  is stored as the tracked URL and is the URL of the state returned. The store comes before
  every remote action: it is made when there is no session and no call can be sent, and
  when the first call, the press of F6, raises.
\<close>

theorem navigate_tracks_url:
  "(let n = (if (\<exists>r. u = ''http://'' @ r) \<or> (\<exists>r. u = ''https://'' @ r)
             then u else ''https://'' @ u)
    in self_current_url (adapter (snd (navigate E u s))) = n
     \<and> (fst (navigate E u s) = Inr st \<longrightarrow> url st = n)
     \<and> (self_sandbox (adapter s) = None \<longrightarrow>
          navigate E u s = (Inl (none_has_no_attribute ''computer_use''),
                            s\<lparr>adapter := (adapter s)\<lparr>self_current_url := n\<rparr>\<rparr>))
     \<and> (self_sandbox (adapter s) = Some sb
          \<and> respond E (trace s) (OnSandbox sb (KeyboardPress ''f6'')) = Inl e \<longrightarrow>
          navigate E u s =
            (Inl e, s\<lparr>adapter := (adapter s)\<lparr>self_current_url := n\<rparr>,
                      trace := trace s @
                        [Remote (OnSandbox sb (KeyboardPress ''f6'')) (Inl e)]\<rparr>)))"
proof -
  let ?n = "if startswith u ''http://'' \<or> startswith u ''https://'' then u else ''https://'' @ u"
  have stored: "self_current_url (adapter (snd (navigate E u s))) = ?n"
    by (rule navigate_url)
  have returned: "url st = ?n" if "fst (navigate E u s) = Inr st"
  proof -
    have "perform E (Navigate u) s = (Inr st, snd (navigate E u s))"
      using that by (simp add: prod_eq_iff)
    from returned_url [OF this] stored show ?thesis by simp
  qed
  have no_session: "navigate E u s = (Inl (none_has_no_attribute ''computer_use''),
                            s\<lparr>adapter := (adapter s)\<lparr>self_current_url := ?n\<rparr>\<rparr>)"
    if "self_sandbox (adapter s) = None"
    using that by (simp add: navigate_def prog_defs)
  have first_fails: "navigate E u s =
            (Inl e, s\<lparr>adapter := (adapter s)\<lparr>self_current_url := ?n\<rparr>,
                      trace := trace s @
                        [Remote (OnSandbox sb (KeyboardPress ''f6'')) (Inl e)]\<rparr>)"
    if "self_sandbox (adapter s) = Some sb"
       "respond E (trace s) (OnSandbox sb (KeyboardPress ''f6'')) = Inl e"
    using that by (simp add: navigate_def prog_defs)
  show ?thesis
    unfolding Let_def startswith_iff [symmetric]
    using stored returned no_session first_fails by blast
qed

theorem navigate_tracks_url_witness:
  "self_sandbox (adapter fresh) = None
   \<and> navigate provider_ok ''example.com'' fresh =
       (Inl (none_has_no_attribute ''computer_use''),
        fresh\<lparr>adapter := (adapter fresh)\<lparr>self_current_url := ''https://example.com''\<rparr>\<rparr>)
   \<and> self_current_url (adapter (snd (navigate provider_ok ''example.com'' session)))
       = ''https://example.com''
   \<and> self_current_url (adapter (snd (navigate provider_ok ''http://x.com'' session)))
       = ''http://x.com''"
  using navigate_tracks_url [of "''example.com''" provider_ok fresh]
        navigate_tracks_url [of "''example.com''" provider_ok session]
        navigate_tracks_url [of "''http://x.com''" provider_ok session]
  by (simp add: fresh_def init_def Let_def)

text \<open>
  The claim as it was written fails for a URL whose scheme is not one of the two: the
  scheme is present and \<open>https://\<close> is put in front all the same.
\<close>

theorem navigate_scheme_counterexample:
  "spec_scheme_present ''ftp://example.com''
   \<and> self_current_url (adapter (snd (navigate provider_ok ''ftp://example.com'' session)))
       = ''https://ftp://example.com''"
  by (simp add: spec_scheme_present_def is_scheme_char_def is_alpha_def startswith_def
        navigate_url)

subsection \<open>Scrolling the document\<close>

text \<open>
  C4. For the directions left and right \<^verbatim>\<open>scroll_document\<close> is \<^verbatim>\<open>scroll_at\<close> at the
  centre of the screen, (width div 2, height div 2), with magnitude width div 2: the same
  outcome, the same state, the same log. For up and down, in a session, the calls it sends
  to act on the desktop are one key press, \<open>pageup\<close> or \<open>pagedown\<close>, and nothing else: no
  mouse click.
\<close>

theorem scroll_document_refines:
  "(d = ''left'' \<or> d = ''right'' \<longrightarrow>
      scroll_document E d s =
        scroll_at E (fst (self_screen_size (adapter s)) div 2)
                    (snd (self_screen_size (adapter s)) div 2) d
                    (fst (self_screen_size (adapter s)) div 2) s)
   \<and> (self_sandbox (adapter s) = Some sb \<longrightarrow>
        input_calls (issued s (snd (scroll_document E ''up'' s)))
          = [OnSandbox sb (KeyboardPress ''pageup'')]
      \<and> input_calls (issued s (snd (scroll_document E ''down'' s)))
          = [OnSandbox sb (KeyboardPress ''pagedown'')])"
  by (auto simp add: scroll_document_def prog_defs issued_def current_state_snd
           split: option.splits sum.splits)

theorem scroll_document_refines_witness:
  "(''left'' = ''left'' \<or> ''left'' = ''right'')
   \<and> scroll_document provider_ok ''left'' session = scroll_at provider_ok 500 350 ''left'' 500 session
   \<and> self_sandbox (adapter session) = Some ''sb-1''
   \<and> input_calls (issued session (snd (scroll_document provider_ok ''up'' session)))
       = [OnSandbox ''sb-1'' (KeyboardPress ''pageup'')]
   \<and> input_calls (issued session (snd (scroll_document provider_ok ''down'' session)))
       = [OnSandbox ''sb-1'' (KeyboardPress ''pagedown'')]"
  using scroll_document_refines [of "''left''" provider_ok session "''sb-1''"]
  by (simp add: session_def fresh_def init_def)

subsection \<open>Key combinations\<close>

text \<open>
  C5. In a session, \<^verbatim>\<open>key_combination\<close> translates every name as the specification
  says (lowercased and looked up; a name outside the mapping passes through as given) and
  sends, for one name, one simple press of its token and, for two names or more, one
  hotkey of the tokens joined by \<open>+\<close> in the order given; it sends no other call that
  acts on the desktop.
\<close>

theorem key_combination_presses:
  "self_sandbox (adapter s) = Some sb \<longrightarrow>
     input_calls (issued s (snd (key_combination E [k] s)))
       = [OnSandbox sb (KeyboardPress (spec_key_token k))]
   \<and> (2 \<le> length keys \<longrightarrow>
        input_calls (issued s (snd (key_combination E keys s)))
          = [OnSandbox sb (KeyboardHotkey (join ''+'' (map spec_key_token keys)))])"
  by (auto simp add: key_combination_def key_map_token prog_defs issued_def current_state_snd
           split: option.splits sum.splits)

theorem key_combination_presses_witness:
  "self_sandbox (adapter session) = Some ''sb-1''
   \<and> input_calls (issued session (snd (key_combination provider_ok [''Enter''] session)))
       = [OnSandbox ''sb-1'' (KeyboardPress ''Enter'')]
   \<and> 2 \<le> length [''control'', ''a'']
   \<and> input_calls (issued session (snd (key_combination provider_ok [''control'', ''a''] session)))
       = [OnSandbox ''sb-1'' (KeyboardHotkey ''ctrl+a'')]"
  using key_combination_presses [of session "''sb-1''" provider_ok "''Enter''" "[''control'', ''a'']"]
  by (simp add: session_def spec_key_token_def lower_def lower_char_def)

subsection \<open>The URL that the state reports\<close>

text \<open>
  C6. The URL of a returned state is the tracked URL, and the tracked URL is what the last
  \<^verbatim>\<open>navigate\<close> or \<^verbatim>\<open>open_web_browser\<close> stored: after either of them, whatever
  methods other than these two and \<^verbatim>\<open>search\<close> the caller goes on to call (back and
  forward among them, failed calls included), \<^verbatim>\<open>current_state\<close> reports the URL that
  was stored. \<^verbatim>\<open>go_back\<close> and \<^verbatim>\<open>go_forward\<close> leave every field of the object as
  it was, the tracked URL too; in a session the one call they send to act on the desktop
  is the hotkey \<open>alt+left\<close> or \<open>alt+right\<close>.
\<close>

theorem current_url_tracking:
  "(list_all (\<lambda>b. \<not> sets_url b) as \<longrightarrow>
      (fst (current_state E (run E as (snd (navigate E u s)))) = Inr st \<longrightarrow>
         url st = (if (\<exists>r. u = ''http://'' @ r) \<or> (\<exists>r. u = ''https://'' @ r)
                   then u else ''https://'' @ u))
    \<and> (fst (open_web_browser E s) = Inr st0
        \<and> fst (current_state E (run E as (snd (open_web_browser E s)))) = Inr st \<longrightarrow>
         url st = self_initial_url (adapter s)))
   \<and> adapter (snd (go_back E s)) = adapter s
   \<and> adapter (snd (go_forward E s)) = adapter s
   \<and> (self_sandbox (adapter s) = Some sb \<longrightarrow>
        input_calls (issued s (snd (go_back E s)))
          = [OnSandbox sb (KeyboardHotkey ''alt+left'')]
      \<and> input_calls (issued s (snd (go_forward E s)))
          = [OnSandbox sb (KeyboardHotkey ''alt+right'')])"
proof -
  have after_navigate:
    "url st = (if (\<exists>r. u = ''http://'' @ r) \<or> (\<exists>r. u = ''https://'' @ r)
               then u else ''https://'' @ u)"
    if "list_all (\<lambda>b. \<not> sets_url b) as"
       "fst (current_state E (run E as (snd (navigate E u s)))) = Inr st"
  proof -
    have "url st = self_current_url (adapter (run E as (snd (navigate E u s))))"
      using that(2) by (rule current_state_fst_url)
    also have "\<dots> = self_current_url (adapter (snd (navigate E u s)))"
      using that(1) by (simp add: run_frame)
    finally show ?thesis
      by (simp add: navigate_url startswith_iff)
  qed
  have opened: "self_current_url (adapter (snd (open_web_browser E s))) = self_initial_url (adapter s)"
    if "fst (open_web_browser E s) = Inr st0"
    using that
    by (auto simp add: open_web_browser_def prog_defs current_state_snd
             split: option.splits sum.splits)
  have after_open: "url st = self_initial_url (adapter s)"
    if "list_all (\<lambda>b. \<not> sets_url b) as" "fst (open_web_browser E s) = Inr st0"
       "fst (current_state E (run E as (snd (open_web_browser E s)))) = Inr st"
  proof -
    have "url st = self_current_url (adapter (run E as (snd (open_web_browser E s))))"
      using that(3) by (rule current_state_fst_url)
    also have "\<dots> = self_current_url (adapter (snd (open_web_browser E s)))"
      using that(1) by (simp add: run_frame)
    finally show ?thesis
      using opened [OF that(2)] by simp
  qed
  have went_back: "adapter (snd (go_back E s)) = adapter s"
    using perform_frame [of GoBack E s] by simp
  have went_forward: "adapter (snd (go_forward E s)) = adapter s"
    using perform_frame [of GoForward E s] by simp
  have keys: "input_calls (issued s (snd (go_back E s)))
                = [OnSandbox sb (KeyboardHotkey ''alt+left'')]
            \<and> input_calls (issued s (snd (go_forward E s)))
                = [OnSandbox sb (KeyboardHotkey ''alt+right'')]"
    if "self_sandbox (adapter s) = Some sb"
    using that
    by (auto simp add: go_back_def go_forward_def prog_defs issued_def current_state_snd
             split: option.splits sum.splits)
  show ?thesis
    using after_navigate after_open went_back went_forward keys by blast
qed

theorem current_url_tracking_witness:
  "list_all (\<lambda>b. \<not> sets_url b) [GoBack, GoForward]
   \<and> fst (current_state provider_ok
            (run provider_ok [GoBack, GoForward]
               (snd (navigate provider_ok ''example.com'' session))))
       = Inr \<lparr>screenshot = [104, 105], url = ''https://example.com''\<rparr>
   \<and> fst (open_web_browser provider_ok session)
       = Inr \<lparr>screenshot = [104, 105], url = ''https://www.duckduckgo.com/''\<rparr>
   \<and> adapter (snd (go_back provider_ok session)) = adapter session
   \<and> self_sandbox (adapter session) = Some ''sb-1''
   \<and> input_calls (issued session (snd (go_back provider_ok session)))
       = [OnSandbox ''sb-1'' (KeyboardHotkey ''alt+left'')]"
  using current_url_tracking [of "[GoBack, GoForward]" provider_ok "''example.com''" session
          "\<lparr>screenshot = [104, 105], url = ''https://example.com''\<rparr>"
          "\<lparr>screenshot = [104, 105], url = ''https://www.duckduckgo.com/''\<rparr>" "''sb-1''"]
  by (simp add: provider_ok_def session_def fresh_def init_def method_defs current_state_def
        prog_defs b64decode_def table_a2b_base64_def startswith_def)

subsection \<open>The end of a session\<close>

text \<open>
  C7, as amended. \<^verbatim>\<open>__exit__\<close> returns without raising when there is no handle, when
  the deletion succeeds, and when the deletion raises an exception of class
  \<^verbatim>\<open>Exception\<close>: then the log ends with the failed deletion and the red console line
  that reports it, and nothing else has changed. It raises exactly when the deletion raises
  something outside \<^verbatim>\<open>Exception\<close>, which its handler does not cover: that goes to
  the caller as it is, with no console line.
\<close>

theorem exit_swallows_exceptions:
  "exit E s =
     (case self_sandbox (adapter s) of
        None \<Rightarrow> (Inr (), s)
      | Some sb \<Rightarrow>
          (case respond E (trace s) (OnSandbox sb Delete) of
             Inr r \<Rightarrow> (Inr (), s\<lparr>trace := trace s @ [Remote (OnSandbox sb Delete) (Inr r)]\<rparr>)
           | Inl e \<Rightarrow>
               if is_Exception e
               then (Inr (), s\<lparr>trace := trace s @
                       [Remote (OnSandbox sb Delete) (Inl e),
                        Cprint (''Sandbox cleanup failed: '' @ str_of_exn e) ''red'' []]\<rparr>)
               else (Inl e, s\<lparr>trace := trace s @
                       [Remote (OnSandbox sb Delete) (Inl e)]\<rparr>)))
   \<and> (isl (fst (exit E s)) \<longleftrightarrow>
        (\<exists>sb e. self_sandbox (adapter s) = Some sb
               \<and> respond E (trace s) (OnSandbox sb Delete) = Inl e \<and> \<not> is_Exception e))"
  by (auto simp add: exit_def prog_defs split: option.splits sum.splits if_splits)

theorem exit_swallows_exceptions_witness:
  "self_sandbox (adapter session) = Some ''sb-1''
   \<and> respond provider_delete_fails (trace session) (OnSandbox ''sb-1'' Delete)
       = Inl (OtherException ''connection reset'')
   \<and> is_Exception (OtherException ''connection reset'')
   \<and> exit provider_delete_fails session =
       (Inr (), session\<lparr>trace := trace session @
           [Remote (OnSandbox ''sb-1'' Delete) (Inl (OtherException ''connection reset'')),
            Cprint ''Sandbox cleanup failed: connection reset'' ''red'' []]\<rparr>)
   \<and> \<not> isl (fst (exit provider_delete_fails session))"
  using exit_swallows_exceptions [of provider_delete_fails session]
  by (simp add: provider_delete_fails_def session_def)

text \<open>
  The claim as it was written fails when the deletion is interrupted: \<^verbatim>\<open>KeyboardInterrupt\<close>
  is not an \<^verbatim>\<open>Exception\<close>, and \<^verbatim>\<open>__exit__\<close> raises it, with nothing printed.
\<close>

theorem exit_interrupt_counterexample:
  "respond provider_delete_interrupted (trace session) (OnSandbox ''sb-1'' Delete)
     = Inl (KeyboardInterrupt '''')
   \<and> exit provider_delete_interrupted session =
       (Inl (KeyboardInterrupt ''''),
        session\<lparr>trace := trace session @
          [Remote (OnSandbox ''sb-1'' Delete) (Inl (KeyboardInterrupt ''''))]\<rparr>)"
  by (simp add: exit_def provider_delete_interrupted_def session_def prog_defs)

subsection \<open>The capture\<close>

text \<open>
  C8, as amended. In a session, \<^verbatim>\<open>current_state\<close> waits, sends the capture, and fails
  exactly when the capture raises or the base64 decoding of the text it returned raises; in
  both cases the exception is raised again as it is, after a red console line when it is of
  class \<^verbatim>\<open>Exception\<close> (the handler covers no other). When both succeed it returns the
  decoded bytes with the tracked URL.
\<close>

theorem current_state_outcome:
  "self_sandbox (adapter s) = Some sb \<longrightarrow>
     (let c = OnSandbox sb (ScreenshotTakeCompressed ''png'' True);
          s1 = s\<lparr>trace := trace s @ [Sleep SLEEP_SCREENSHOT]\<rparr>;
          r = respond E (trace s1) c;
          s2 = s1\<lparr>trace := trace s1 @ [Remote c r]\<rparr>
      in current_state E s =
           (case (case r of Inl e \<Rightarrow> Inl e | Inr payload \<Rightarrow> b64decode payload) of
              Inl e \<Rightarrow>
                (Inl e,
                 if is_Exception e
                 then s2\<lparr>trace := trace s2 @
                           [Cprint (''Screenshot failed: '' @ str_of_exn e) ''red'' []]\<rparr>
                 else s2)
            | Inr decoded \<Rightarrow>
                (Inr \<lparr>screenshot = decoded, url = self_current_url (adapter s)\<rparr>, s2))
         \<and> (isl (fst (current_state E s))
              \<longleftrightarrow> isl r \<or> (\<exists>payload. r = Inr payload \<and> isl (b64decode payload))))"
  by (auto simp add: current_state_def prog_defs split: option.splits sum.splits if_splits)

theorem current_state_outcome_witness:
  "self_sandbox (adapter session) = Some ''sb-1''
   \<and> current_state provider_ok session =
       (Inr \<lparr>screenshot = [104, 105], url = ''https://www.duckduckgo.com/''\<rparr>,
        session\<lparr>trace := trace session @
          [Sleep 500,
           Remote (OnSandbox ''sb-1'' (ScreenshotTakeCompressed ''png'' True)) (Inr ''aGk='')]\<rparr>)"
  using current_state_outcome [of session "''sb-1''" provider_ok]
  by (simp add: provider_ok_def session_def fresh_def init_def SLEEP_SCREENSHOT_def
        b64decode_def table_a2b_base64_def)

text \<open>
  The claim as it was written fails when the capture succeeds and what it returns is not
  base64: the provider answers \<open>A\<close>, and \<^verbatim>\<open>current_state\<close> raises the decoding error.
\<close>

theorem current_state_counterexample:
  "respond provider_bad_capture (trace session @ [Sleep SLEEP_SCREENSHOT])
       (OnSandbox ''sb-1'' (ScreenshotTakeCompressed ''png'' True)) = Inr ''A''
   \<and> fst (current_state provider_bad_capture session)
       = Inl (BinasciiError ''Invalid base64-encoded string: number of data characters (1) cannot be 1 more than a multiple of 4'')"
  by (simp add: current_state_def provider_bad_capture_def session_def prog_defs
        b64decode_def table_a2b_base64_def show_nat.simps)

subsection \<open>The magnitude of a scroll\<close>

text \<open>
  C9. The magnitude given to \<^verbatim>\<open>scroll_at\<close> has no effect: with any two magnitudes, and
  all else equal, the outcome, the state and the log are the same.
\<close>

theorem scroll_at_ignores_magnitude:
  "scroll_at E x y d m1 s = scroll_at E x y d m2 s"
  by (simp add: scroll_at_def)

subsection \<open>The handle after the end\<close>

text \<open>
  C10. \<^verbatim>\<open>__exit__\<close> leaves every field of the object as it was, the stored handle too.
  So after a start that succeeded, two calls of \<^verbatim>\<open>__exit__\<close> send two deletions of the
  same sandbox.
\<close>

theorem exit_keeps_handle:
  "adapter (snd (exit E s)) = adapter s
   \<and> (enter E s0 = (Inr (), s) \<longrightarrow>
        (\<exists>sb. self_sandbox (adapter s) = Some sb
             \<and> remote_calls (issued s (snd (exit E (snd (exit E s)))))
                 = [OnSandbox sb Delete, OnSandbox sb Delete]))"
proof -
  have frame: "adapter (snd (exit E s)) = adapter s"
    by (auto simp add: exit_def prog_defs split: option.splits sum.splits if_splits)
  have twice: "remote_calls (issued s (snd (exit E (snd (exit E s)))))
                 = [OnSandbox sb Delete, OnSandbox sb Delete]"
    if "self_sandbox (adapter s) = Some sb" for sb
    using that by (auto simp add: exit_def prog_defs issued_def split: option.splits sum.splits if_splits)
  show ?thesis
    using frame twice enter_ok_sandbox [of E s0 s] by auto
qed

theorem exit_keeps_handle_witness:
  "enter provider_ok fresh = (Inr (), session)
   \<and> adapter (snd (exit provider_ok session)) = adapter session
   \<and> self_sandbox (adapter session) = Some ''sb-1''
   \<and> remote_calls (issued session (snd (exit provider_ok (snd (exit provider_ok session)))))
        = [OnSandbox ''sb-1'' Delete, OnSandbox ''sb-1'' Delete]"
  using exit_keeps_handle [of provider_ok session fresh] enter_fresh
  by (simp add: session_def)

end
